theory Spec2Isabelle
  imports Complex_Main "HOL-Library.Sublist"
begin

section \<open>Python strings\<close>

text \<open>
  A Python \<open>str\<close> is a sequence of Unicode code points, and \<open>len\<close>, \<open>strip\<close>,
  \<open>split\<close> and \<open>splitlines\<close> all work on code points. The bullet \<open>U+2022\<close> that the
  fallback parser strips and the Unicode white space that \<open>strip()\<close> removes lie
  outside the 8-bit \<^typ>\<open>char\<close>, so a string is a list of code points here, and
  \<open>lit\<close> turns an ASCII literal into one.
\<close>

type_synonym codepoint = nat
type_synonym str = "codepoint list"

definition lit :: "string \<Rightarrow> str" where
  "lit s = map of_char s"

text \<open>\<open>str.isspace\<close> on one character, as CPython's \<open>_PyUnicode_IsWhitespace\<close> lists it.\<close>

definition isspace :: "codepoint \<Rightarrow> bool" where
  "isspace c =
     ((9 \<le> c \<and> c \<le> 13) \<or> (28 \<le> c \<and> c \<le> 32) \<or> c = 133 \<or> c = 160 \<or> c = 5760 \<or>
      (8192 \<le> c \<and> c \<le> 8202) \<or> c = 8232 \<or> c = 8233 \<or> c = 8239 \<or> c = 8287 \<or>
      c = 12288)"

text \<open>The line boundaries of \<open>str.splitlines\<close> (\<open>_PyUnicode_IsLinebreak\<close>).\<close>

definition islinebreak :: "codepoint \<Rightarrow> bool" where
  "islinebreak c =
     ((10 \<le> c \<and> c \<le> 13) \<or> (28 \<le> c \<and> c \<le> 30) \<or> c = 133 \<or> c = 8232 \<or> c = 8233)"

text \<open>\<open>s.strip()\<close>, \<open>s.lstrip(chars)\<close> and \<open>s.strip(chars)\<close>.\<close>

definition str_strip :: "str \<Rightarrow> str" where
  "str_strip s = rev (dropWhile isspace (rev (dropWhile isspace s)))"

definition str_lstrip_chars :: "str \<Rightarrow> str \<Rightarrow> str" where
  "str_lstrip_chars chars s = dropWhile (\<lambda>c. c \<in> set chars) s"

definition str_strip_chars :: "str \<Rightarrow> str \<Rightarrow> str" where
  "str_strip_chars chars s =
     rev (dropWhile (\<lambda>c. c \<in> set chars) (rev (dropWhile (\<lambda>c. c \<in> set chars) s)))"

text \<open>
  \<open>s.split()\<close> with no argument: the maximal runs of characters that are not white
  space, in order; \<open>cur\<close> is the token being read.
\<close>

fun split_from :: "str \<Rightarrow> str \<Rightarrow> str list" where
  "split_from cur [] = (if cur = [] then [] else [cur])"
| "split_from cur (c # cs) =
     (if isspace c then (if cur = [] then split_from [] cs else cur # split_from [] cs)
      else split_from (cur @ [c]) cs)"

definition str_split :: "str \<Rightarrow> str list" where
  "str_split s = split_from [] s"

text \<open>
  \<open>s.splitlines()\<close>: the lines without their terminators; \<open>\r\n\<close> is one terminator and
  a terminator at the very end opens no further line.
\<close>

fun splitlines_from :: "str \<Rightarrow> str \<Rightarrow> str list" where
  "splitlines_from cur [] = (if cur = [] then [] else [cur])"
| "splitlines_from cur [c] = (if islinebreak c then [cur] else [cur @ [c]])"
| "splitlines_from cur (c # d # cs) =
     (if c = 13 \<and> d = 10 then cur # splitlines_from [] cs
      else if islinebreak c then cur # splitlines_from [] (d # cs)
      else splitlines_from (cur @ [c]) (d # cs))"

definition str_splitlines :: "str \<Rightarrow> str list" where
  "str_splitlines s = splitlines_from [] s"

text \<open>\<open>sub in s\<close>, the substring test.\<close>

fun str_in :: "str \<Rightarrow> str \<Rightarrow> bool" where
  "str_in sub [] = (sub = [])"
| "str_in sub (c # cs) = (prefix sub (c # cs) \<or> str_in sub cs)"

text \<open>\<open>s.startswith(t)\<close> and \<open>s.endswith(t)\<close> for a tuple \<open>t\<close> of alternatives.\<close>

definition str_startswith :: "str \<Rightarrow> str list \<Rightarrow> bool" where
  "str_startswith s alts = list_ex (\<lambda>p. prefix p s) alts"

definition str_endswith :: "str \<Rightarrow> str list \<Rightarrow> bool" where
  "str_endswith s alts = list_ex (\<lambda>p. prefix (rev p) (rev s)) alts"

section \<open>Errors\<close>

text \<open>
  The exceptions the two scripts can meet. \<open>ValueError\<close> and its two subclasses
  \<open>JSONDecodeError\<close> and \<open>UnicodeEncodeError\<close> carry their message \<open>str(e)\<close>. \<open>Raised e\<close> is an
  exception \<open>e\<close> of an external collaborator (the completion service, the predictor of the
  optimisation framework), of a class of the collaborator's own.
\<close>

datatype 'e error =
    ZeroDivisionError
  | IndexError
  | KeyError str
  | FileNotFoundError
  | JSONDecodeError str
  | ValueError str
  | UnicodeEncodeError str
  | RecursionError
  | Raised 'e

section \<open>Classifiers (prompt\_engineering.py, section 3)\<close>

definition EVENT_CATEGORIES :: "str list" where
  "EVENT_CATEGORIES = [lit ''Wars'', lit ''Politics'', lit ''Science'', lit ''Culture'']"

text \<open>
  Both classifiers send one request and then read the label off the message content.
  The request (template, model name, temperature, token cap) goes to the completion
  service, which is the parameter \<open>completion\<close>: the content it answers for an event text, or
  the exception it raises. The label extraction is the function of the content below.
\<close>

text \<open>\<open>classify_with_baseline_prompt\<close>, lines 181 to 185: \<open>raw_reply.split()[0]\<close>.\<close>

definition baseline_label :: "str \<Rightarrow> 'e error + str" where
  "baseline_label content =
     (let raw_reply = str_strip content
      in case str_split raw_reply of
           [] \<Rightarrow> Inl IndexError
         | predicted_label # _ \<Rightarrow> Inr predicted_label)"

definition classify_with_baseline_prompt :: "(str \<Rightarrow> 'e + str) \<Rightarrow> str \<Rightarrow> 'e error + str" where
  "classify_with_baseline_prompt completion event_text =
     (case completion event_text of
        Inl e \<Rightarrow> Inl (Raised e)
      | Inr content \<Rightarrow> baseline_label content)"

text \<open>\<open>classify_with_chain_of_thought\<close>, lines 204 to 219.\<close>

definition cot_label :: "str \<Rightarrow> str" where
  "cot_label content =
     (let raw_reply = str_strip content
      in case find (\<lambda>label. str_in label raw_reply) EVENT_CATEGORIES of
           Some label \<Rightarrow> label
         | None \<Rightarrow>
             (let words = str_split raw_reply
              in if words \<noteq> [] \<and>
                    str_strip_chars (lit ''.,!?'') (last words) \<in> set EVENT_CATEGORIES
                 then str_strip_chars (lit ''.,!?'') (last words)
                 else hd EVENT_CATEGORIES))"

definition classify_with_chain_of_thought :: "(str \<Rightarrow> 'e + str) \<Rightarrow> str \<Rightarrow> 'e error + str" where
  "classify_with_chain_of_thought completion event_text =
     (case completion event_text of
        Inl e \<Rightarrow> Inl (Raised e)
      | Inr content \<Rightarrow> Inr (cot_label content))"

section \<open>Dataset generator (prompt\_engineering.py, section 1b)\<close>

text \<open>
  What \<open>json.loads\<close> can return. The generator only asks whether the value is a list and
  whether its items are strings, so a float keeps the text of its literal.
\<close>

datatype json_value =
    JNone
  | JBool bool
  | JInt int
  | JFloat str
  | JStr str
  | JList "json_value list"
  | JDict "(str \<times> json_value) list"

fun is_list :: "json_value \<Rightarrow> bool" where
  "is_list (JList _) = True"
| "is_list _ = False"

fun is_str :: "json_value \<Rightarrow> bool" where
  "is_str (JStr _) = True"
| "is_str _ = False"

fun items_of :: "json_value \<Rightarrow> json_value list" where
  "items_of (JList items) = items"
| "items_of _ = []"

fun str_of :: "json_value \<Rightarrow> str" where
  "str_of (JStr s) = s"
| "str_of _ = []"

text \<open>
  The body of the \<open>try\<close>, lines 68 to 74. The decoder \<open>json.loads\<close> belongs to the standard
  library and is the parameter \<open>loads\<close>: the decoded value, or the exception it raises
  (\<open>JSONDecodeError\<close> on a text that is no JSON, \<open>RecursionError\<close> on one nested too deep).
\<close>

definition primary_parse :: "(str \<Rightarrow> 'e error + json_value) \<Rightarrow> str \<Rightarrow> 'e error + str list" where
  "primary_parse loads raw_output =
     (case loads raw_output of
        Inl e \<Rightarrow> Inl e
      | Inr events_list \<Rightarrow>
          if \<not> is_list events_list then Inl (ValueError (lit ''Response is not a list''))
          else if \<not> list_all is_str (items_of events_list)
          then Inl (ValueError (lit ''Not all items are strings''))
          else Inr (map str_of (items_of events_list)))"

text \<open>The fallback of lines 79 to 94, one line at a time.\<close>

definition bullet_chars :: str where
  "bullet_chars = lit ''-*'' @ [8226] @ lit '' ''"

definition clean_line :: "str \<Rightarrow> str" where
  "clean_line line = str_strip (str_lstrip_chars bullet_chars (str_strip line))"

definition keep_line :: "str \<Rightarrow> bool" where
  "keep_line line =
     (length line > 10 \<and>
      \<not> str_startswith line
          [lit ''['', lit '']'', lit ''{'', lit ''}'', 34 # lit ''number_'', 34 # lit ''category_''] \<and>
      \<not> str_endswith line [lit '','', [34]])"

definition unquote :: "str \<Rightarrow> str" where
  "unquote line =
     (if str_startswith line [[34]] \<and> str_endswith line [[34]] then butlast (tl line) else line)"

fun fallback_lines :: "str list \<Rightarrow> str list" where
  "fallback_lines [] = []"
| "fallback_lines (line # rest) =
     (let line' = clean_line line
      in if keep_line line' then unquote line' # fallback_lines rest else fallback_lines rest)"

definition fallback_parse :: "str \<Rightarrow> str list" where
  "fallback_parse raw_output = fallback_lines (str_splitlines raw_output)"

text \<open>
  \<open>except (json.JSONDecodeError, ValueError) as e\<close>: the handler takes a \<open>ValueError\<close>, also
  of a subclass, and lets every other exception through; \<open>caught e\<close> is the message \<open>str(e)\<close>
  of an exception the handler takes, and \<open>None\<close> for any other.
\<close>

fun caught :: "'e error \<Rightarrow> str option" where
  "caught (JSONDecodeError message) = Some message"
| "caught (ValueError message) = Some message"
| "caught (UnicodeEncodeError message) = Some message"
| "caught _ = None"

text \<open>The decimal digits of a number, as an f-string writes \<open>len(events_list)\<close>.\<close>

fun str_of_nat :: "nat \<Rightarrow> str" where
  "str_of_nat n = (if n < 10 then [48 + n] else str_of_nat (n div 10) @ [48 + n mod 10])"

declare str_of_nat.simps [simp del]

text \<open>
  The body of the handler, lines 76 to 94. It prints two lines, runs the fallback, prints
  a third line and returns. The standard output is the parameter \<open>py_print\<close>: for a line of
  text, \<open>None\<close> when \<open>print\<close> writes it, or the exception \<open>print\<close> raises (\<open>UnicodeEncodeError\<close>
  on a text the stream cannot encode). An exception raised inside the handler leaves the
  function.
\<close>

definition except_body ::
  "(str \<Rightarrow> 'e error option) \<Rightarrow> str \<Rightarrow> str \<Rightarrow> str \<Rightarrow> 'e error + str list" where
  "except_body py_print category_label raw_output message =
     (case py_print (lit ''Failed to parse JSON for category '' @ category_label @ lit '': '' @ message) of
        Some e \<Rightarrow> Inl e
      | None \<Rightarrow>
          (case py_print (lit ''Raw output: '' @ raw_output) of
             Some e \<Rightarrow> Inl e
           | None \<Rightarrow>
               (let events_list = fallback_parse raw_output
                in case py_print (lit ''Fallback parsing extracted '' @
                                  str_of_nat (length events_list) @ lit '' events'') of
                     Some e \<Rightarrow> Inl e
                   | None \<Rightarrow> Inr events_list)))"

text \<open>Lines 64 to 94: strip the content, try the primary path, handle what the handler takes.\<close>

definition parse_events ::
  "(str \<Rightarrow> 'e error + json_value) \<Rightarrow> (str \<Rightarrow> 'e error option) \<Rightarrow> str \<Rightarrow> str \<Rightarrow>
   'e error + str list" where
  "parse_events loads py_print category_label content =
     (let raw_output = str_strip content
      in case primary_parse loads raw_output of
           Inr events_list \<Rightarrow> Inr events_list
         | Inl e \<Rightarrow>
             (case caught e of
                Some message \<Rightarrow> except_body py_print category_label raw_output message
              | None \<Rightarrow> Inl e))"

text \<open>
  \<open>generate_events_for_category\<close>: one request to the completion service (\<open>completion\<close>, from
  the category and the number of examples to the content or the exception), then the parse.
\<close>

definition generate_events_for_category ::
  "(str \<Rightarrow> nat \<Rightarrow> 'e + str) \<Rightarrow> (str \<Rightarrow> 'e error + json_value) \<Rightarrow> (str \<Rightarrow> 'e error option) \<Rightarrow>
   str \<Rightarrow> nat \<Rightarrow> 'e error + str list" where
  "generate_events_for_category completion loads py_print category_label number_of_examples =
     (case completion category_label number_of_examples of
        Inl e \<Rightarrow> Inl (Raised e)
      | Inr content \<Rightarrow> parse_events loads py_print category_label content)"

section \<open>Evaluators\<close>

text \<open>A labeled example is a dictionary with the keys \<open>event\<close> and \<open>category\<close>.\<close>

type_synonym example = "str \<rightharpoonup> str"

definition getitem :: "example \<Rightarrow> str \<Rightarrow> 'e error + str" where
  "getitem d k = (case d k of None \<Rightarrow> Inl (KeyError k) | Some v \<Rightarrow> Inr v)"

definition labeled :: "str \<Rightarrow> str \<Rightarrow> example" where
  "labeled ev cat = [lit ''event'' \<mapsto> ev, lit ''category'' \<mapsto> cat]"

text \<open>
  \<open>a / b\<close> on two Python integers that are not negative: \<open>ZeroDivisionError\<close> when \<open>b\<close> is zero, else
  the quotient, kept exact here (the script has its nearest float).
\<close>

definition true_div :: "nat \<Rightarrow> nat \<Rightarrow> 'e error + rat" where
  "true_div a b = (if b = 0 then Inl ZeroDivisionError else Inr (of_nat a / of_nat b))"

text \<open>
  \<open>evaluate_classification_function\<close> of prompt\_engineering.py, lines 224 to 251. The loop
  has no handler: an exception of \<open>classify_fn\<close> ends the evaluation. The function prints
  the accuracy; the model returns it.
\<close>

fun count_correct :: "(str \<Rightarrow> 'e error + str) \<Rightarrow> example list \<Rightarrow> nat \<Rightarrow> 'e error + nat" where
  "count_correct classify_fn [] correct_predictions = Inr correct_predictions"
| "count_correct classify_fn (example # rest) correct_predictions =
     (case getitem example (lit ''event'') of
        Inl e \<Rightarrow> Inl e
      | Inr event_description \<Rightarrow>
          (case getitem example (lit ''category'') of
             Inl e \<Rightarrow> Inl e
           | Inr true_label \<Rightarrow>
               (case classify_fn event_description of
                  Inl e \<Rightarrow> Inl e
                | Inr predicted_label \<Rightarrow>
                    count_correct classify_fn rest
                      (if predicted_label = true_label then correct_predictions + 1
                       else correct_predictions))))"

definition evaluate_classification_function ::
  "(str \<Rightarrow> 'e error + str) \<Rightarrow> example list \<Rightarrow> 'e error + rat" where
  "evaluate_classification_function classify_fn examples =
     (let total_examples = length examples
      in case count_correct classify_fn examples 0 of
           Inl e \<Rightarrow> Inl e
         | Inr correct_predictions \<Rightarrow> true_div correct_predictions total_examples)"

text \<open>
  \<open>evaluate_dspy_model\<close> of dspy\_example.py, lines 66 to 89. The body of the \<open>try\<close> is one
  example: the prediction's category compared with the example's; \<open>except Exception\<close>
  prints the exception and goes on. The state of the loop is the counter and the
  exceptions printed so far.
\<close>

definition try_example :: "(str \<Rightarrow> 'e error + str) \<Rightarrow> example \<Rightarrow> 'e error + bool" where
  "try_example model example =
     (case getitem example (lit ''event'') of
        Inl e \<Rightarrow> Inl e
      | Inr ev \<Rightarrow>
          (case model ev of
             Inl e \<Rightarrow> Inl e
           | Inr pred_category \<Rightarrow>
               (case getitem example (lit ''category'') of
                  Inl e \<Rightarrow> Inl e
                | Inr cat \<Rightarrow> Inr (pred_category = cat))))"

fun dspy_loop ::
  "(str \<Rightarrow> 'e error + str) \<Rightarrow> example list \<Rightarrow> nat \<times> 'e error list \<Rightarrow> nat \<times> 'e error list" where
  "dspy_loop model [] st = st"
| "dspy_loop model (example # rest) (correct, printed) =
     (case try_example model example of
        Inr hit \<Rightarrow> dspy_loop model rest (if hit then correct + 1 else correct, printed)
      | Inl e \<Rightarrow> dspy_loop model rest (correct, printed @ [e]))"

definition evaluate_dspy_model ::
  "(str \<Rightarrow> 'e error + str) \<Rightarrow> example list \<Rightarrow> 'e error + rat \<times> 'e error list" where
  "evaluate_dspy_model model test_data =
     (let total = length test_data;
          (correct, printed) = dspy_loop model test_data (0, [])
      in case true_div correct total of
           Inl e \<Rightarrow> Inl e
         | Inr accuracy \<Rightarrow> Inr (accuracy, printed))"

section \<open>Dataset materialisation\<close>

text \<open>
  The state both scripts share with the outside: the content of
  \<open>labeled_event_examples.json\<close> (\<open>None\<close> while the file is absent) and the number of
  requests made to a generator so far. \<open>json.dump\<close> followed by \<open>json.load\<close> gives back a
  list of dictionaries of strings as it was, so the file holds the list itself.
\<close>

record world =
  dataset_file :: "example list option"
  generator_calls :: nat

definition examples_per_category :: nat where
  "examples_per_category = 15"

definition tag_events :: "str \<Rightarrow> str list \<Rightarrow> example list" where
  "tag_events label generated_events = map (\<lambda>event_description. labeled event_description label) generated_events"

text \<open>
  prompt\_engineering.py, lines 97 to 116. The completion service may answer each request
  differently, so it takes the number of the request as well. A generation that raises
  ends the script before the file is written. The two messages the script itself prints
  (lines 110 and 116) are left out.
\<close>

fun generate_all ::
  "(nat \<Rightarrow> str \<Rightarrow> nat \<Rightarrow> 'e + str) \<Rightarrow> (str \<Rightarrow> 'e error + json_value) \<Rightarrow>
   (str \<Rightarrow> 'e error option) \<Rightarrow> str list \<Rightarrow> example list \<Rightarrow> world \<Rightarrow>
   'e error + example list \<times> world" where
  "generate_all completion loads py_print [] training_examples w = Inr (training_examples, w)"
| "generate_all completion loads py_print (label # rest) training_examples w =
     (case generate_events_for_category (completion (generator_calls w)) loads py_print label
             examples_per_category of
        Inl e \<Rightarrow> Inl e
      | Inr generated_events \<Rightarrow>
          generate_all completion loads py_print rest
            (training_examples @ tag_events label generated_events)
            (w\<lparr>generator_calls := generator_calls w + 1\<rparr>))"

definition materialize ::
  "(nat \<Rightarrow> str \<Rightarrow> nat \<Rightarrow> 'e + str) \<Rightarrow> (str \<Rightarrow> 'e error + json_value) \<Rightarrow>
   (str \<Rightarrow> 'e error option) \<Rightarrow> world \<Rightarrow> 'e error + example list \<times> world" where
  "materialize completion loads py_print w =
     (if dataset_file w = None
      then (case generate_all completion loads py_print EVENT_CATEGORIES [] w of
              Inl e \<Rightarrow> Inl e
            | Inr (training_examples, w') \<Rightarrow>
                Inr (training_examples, w'\<lparr>dataset_file := Some training_examples\<rparr>))
      else Inr ([], w))"

text \<open>Line 255: \<open>json.load(open("labeled_event_examples.json"))\<close>.\<close>

definition load_examples :: "world \<Rightarrow> 'e error + example list" where
  "load_examples w =
     (case dataset_file w of None \<Rightarrow> Inl FileNotFoundError | Some data \<Rightarrow> Inr data)"

text \<open>The script up to line 255: materialise, then load what the evaluation runs on.\<close>

definition load_or_create ::
  "(nat \<Rightarrow> str \<Rightarrow> nat \<Rightarrow> 'e + str) \<Rightarrow> (str \<Rightarrow> 'e error + json_value) \<Rightarrow>
   (str \<Rightarrow> 'e error option) \<Rightarrow> world \<Rightarrow> 'e error + example list \<times> world" where
  "load_or_create completion loads py_print w =
     (case materialize completion loads py_print w of
        Inl e \<Rightarrow> Inl e
      | Inr (_, w') \<Rightarrow>
          (case load_examples w' of
             Inl e \<Rightarrow> Inl e
           | Inr labeled_event_examples \<Rightarrow> Inr (labeled_event_examples, w')))"

text \<open>
  \<open>generate_trainset\<close> of dspy\_example.py, lines 13 to 35. The predictor \<open>generator\<close>
  answers one synthetic event for a category or raises; it is asked 15 times for each of
  the four categories.
\<close>

fun generate_n ::
  "(nat \<Rightarrow> str \<Rightarrow> 'e + str) \<Rightarrow> str \<Rightarrow> nat \<Rightarrow> example list \<Rightarrow> world \<Rightarrow>
   'e error + example list \<times> world" where
  "generate_n generator cat 0 trainset w = Inr (trainset, w)"
| "generate_n generator cat (Suc n) trainset w =
     (case generator (generator_calls w) cat of
        Inl e \<Rightarrow> Inl (Raised e)
      | Inr ev \<Rightarrow>
          generate_n generator cat n (trainset @ [labeled ev cat])
            (w\<lparr>generator_calls := generator_calls w + 1\<rparr>))"

fun generate_cats ::
  "(nat \<Rightarrow> str \<Rightarrow> 'e + str) \<Rightarrow> str list \<Rightarrow> example list \<Rightarrow> world \<Rightarrow>
   'e error + example list \<times> world" where
  "generate_cats generator [] trainset w = Inr (trainset, w)"
| "generate_cats generator (cat # rest) trainset w =
     (case generate_n generator cat 15 trainset w of
        Inl e \<Rightarrow> Inl e
      | Inr (trainset', w') \<Rightarrow> generate_cats generator rest trainset' w')"

definition generate_trainset ::
  "(nat \<Rightarrow> str \<Rightarrow> 'e + str) \<Rightarrow> world \<Rightarrow> 'e error + example list \<times> world" where
  "generate_trainset generator w =
     (case dataset_file w of
        Some data \<Rightarrow> Inr (data, w)
      | None \<Rightarrow>
          (case generate_cats generator
                  [lit ''Wars'', lit ''Politics'', lit ''Science'', lit ''Culture''] [] w of
             Inl e \<Rightarrow> Inl e
           | Inr (trainset, w') \<Rightarrow> Inr (trainset, w'\<lparr>dataset_file := Some trainset\<rparr>)))"

section \<open>Reference functions\<close>

text \<open>
  The first white-space-delimited token of a string, said directly: skip the leading
  white space, then take the characters up to the next white space. The direct
  classifier is compared with it.
\<close>

definition first_token :: "str \<Rightarrow> str" where
  "first_token s = takeWhile (\<lambda>c. \<not> isspace c) (dropWhile isspace s)"

text \<open>
  What the evaluation of dspy\_example.py should count: the examples on which the
  prediction is made and equals the label, and, in order, the exceptions of the others.
\<close>

definition hits :: "(str \<Rightarrow> 'e error + str) \<Rightarrow> example list \<Rightarrow> nat" where
  "hits model test_data = length (filter (\<lambda>example. try_example model example = Inr True) test_data)"

definition failures :: "(str \<Rightarrow> 'e error + str) \<Rightarrow> example list \<Rightarrow> 'e error list" where
  "failures model test_data =
     concat (map (\<lambda>example. case try_example model example of Inl e \<Rightarrow> [e] | Inr _ \<Rightarrow> []) test_data)"

text \<open>The three lines the handler of the generator prints, in their order.\<close>

definition handler_texts :: "str \<Rightarrow> str \<Rightarrow> str \<Rightarrow> str list" where
  "handler_texts category_label raw_output message =
     [lit ''Failed to parse JSON for category '' @ category_label @ lit '': '' @ message,
      lit ''Raw output: '' @ raw_output,
      lit ''Fallback parsing extracted '' @ str_of_nat (length (fallback_parse raw_output)) @
        lit '' events'']"

section \<open>Sample inputs\<close>

text \<open>
  A decoder to run the generator with. It has the value of \<open>json.loads\<close> on the sample
  replies: \<open>RecursionError\<close> on a thousand opening brackets (CPython 3.11 with its recursion
  limit of 1000), the decoded list on an array with one empty string and on an array of
  two event descriptions, and \<open>JSONDecodeError\<close> with the message \<open>json.loads\<close> gives on a
  text that starts with a dash followed by a space. It is applied to these replies only.
\<close>

definition sample_loads :: "str \<Rightarrow> unit error + json_value" where
  "sample_loads s =
     (if length s = 1000 \<and> list_all (\<lambda>c. c = 91) s then Inl RecursionError
      else if s = 91 # 34 # 34 # [93] then Inr (JList [JStr []])
      else if s = 91 # 34 # lit ''Moon landing'' @ 34 # lit '', '' @ 34 # lit ''Fall of Rome'' @ [34, 93]
      then Inr (JList [JStr (lit ''Moon landing''), JStr (lit ''Fall of Rome'')])
      else Inl (JSONDecodeError (lit ''Expecting value: line 1 column 1 (char 0)'')))"

text \<open>
  A standard output encoded in UTF-8: \<open>print\<close> writes a text without surrogate code
  points, and on a text with one raises \<open>UnicodeEncodeError\<close>, whose message names the first
  run of surrogates: the character and its position when the run is one character, the
  first and last position when it is longer.
\<close>

definition is_surrogate :: "codepoint \<Rightarrow> bool" where
  "is_surrogate c = (55296 \<le> c \<and> c \<le> 57343)"

definition hex_digit :: "nat \<Rightarrow> codepoint" where
  "hex_digit d = (if d < 10 then 48 + d else 87 + d)"

definition surrogate_message :: "str \<Rightarrow> str" where
  "surrogate_message printed =
     (let start = length (takeWhile (\<lambda>c. \<not> is_surrogate c) printed);
          run = takeWhile is_surrogate (dropWhile (\<lambda>c. \<not> is_surrogate c) printed);
          c = hd run
      in 39 # lit ''utf-8'' @ 39 # lit '' codec can'' @ 39 # lit ''t encode '' @
         (if length run = 1
          then lit ''character '' @ 39 # 92 # lit ''u'' @
               map hex_digit [c div 4096, c div 256 mod 16, c div 16 mod 16, c mod 16] @
               39 # lit '' in position '' @ str_of_nat start
          else lit ''characters in position '' @ str_of_nat start @ lit ''-'' @
               str_of_nat (start + length run - 1)) @
         lit '': surrogates not allowed'')"

definition utf8_stdout :: "str \<Rightarrow> unit error option" where
  "utf8_stdout printed =
     (if list_ex is_surrogate printed then Some (UnicodeEncodeError (surrogate_message printed))
      else None)"

text \<open>
  A reply of a thousand opening brackets, and a bulleted reply with a lone surrogate.
\<close>

definition deep_reply :: str where
  "deep_reply = replicate 1000 91"

definition surrogate_reply :: str where
  "surrogate_reply = lit ''- The Battle of '' @ 55296 # lit '' Hastings in 1066''"

text \<open>
  The message of the \<open>UnicodeEncodeError\<close> that printing the raw output of this reply raises:
  the surrogate is character 28 of the line \<open>Raw output: ...\<close>.
\<close>

definition surrogate_reply_message :: str where
  "surrogate_reply_message =
     39 # lit ''utf-8'' @ 39 # lit '' codec can'' @ 39 # lit ''t encode character '' @
     39 # 92 # lit ''ud800'' @ 39 # lit '' in position 28: surrogates not allowed''"

text \<open>A reply that is a JSON array of two strings, with white space around it.\<close>

definition sample_reply :: str where
  "sample_reply =
     32 # 91 # 34 # lit ''Moon landing'' @ 34 # lit '', '' @ 34 # lit ''Fall of Rome'' @ [34, 93, 10]"

text \<open>
  A classifier whose call fails on one event, a stub that always answers \<open>Wars\<close>, and
  three labeled examples.
\<close>

definition flaky_classify :: "str \<Rightarrow> unit error + str" where
  "flaky_classify event_text =
     (if event_text = lit ''Moon landing'' then Inl (Raised ()) else Inr (lit ''Wars''))"

definition always_wars :: "str \<Rightarrow> unit error + str" where
  "always_wars event_text = Inr (lit ''Wars'')"

definition three_examples :: "example list" where
  "three_examples =
     [labeled (lit ''Battle of Hastings'') (lit ''Wars''),
      labeled (lit ''Moon landing'') (lit ''Science''),
      labeled (lit ''Siege of Troy'') (lit ''Wars'')]"

text \<open>
  A reply that is no JSON: two bulleted lines, the first with its text in double quotes.
\<close>

definition bullet_reply :: str where
  "bullet_reply =
     lit ''- '' @ 34 # lit ''The Battle of Hastings in 1066'' @ 34 # 10 #
     lit ''- The Moon landing in 1969''"

text \<open>
  Two states of the world, one with the dataset file in place and one without it, a
  completion service that always answers the bulleted reply, a predictor that always
  answers the same event, and what the first script writes from the state without a file.
\<close>

definition stored_world :: world where
  "stored_world = \<lparr>dataset_file = Some three_examples, generator_calls = 0\<rparr>"

definition fresh_world :: world where
  "fresh_world = \<lparr>dataset_file = None, generator_calls = 0\<rparr>"

definition moon_examples :: "example list" where
  "moon_examples =
     [labeled (lit ''The Moon landing in 1969'') (lit ''Wars''),
      labeled (lit ''The Moon landing in 1969'') (lit ''Politics''),
      labeled (lit ''The Moon landing in 1969'') (lit ''Science''),
      labeled (lit ''The Moon landing in 1969'') (lit ''Culture'')]"

definition created_world :: world where
  "created_world = \<lparr>dataset_file = Some moon_examples, generator_calls = 4\<rparr>"

definition sample_completion :: "nat \<Rightarrow> str \<Rightarrow> nat \<Rightarrow> unit + str" where
  "sample_completion call category_label number_of_examples = Inr bullet_reply"

definition sample_generator :: "nat \<Rightarrow> str \<Rightarrow> unit + str" where
  "sample_generator call cat = Inr (lit ''An event'')"

section \<open>The generator's primary path\<close>

text \<open>
  Claim C5. When the reply (stripped, as the generator strips it) decodes as a JSON array
  whose items are all strings, the generator returns exactly these strings, in the same
  order, and the fallback is not used.
\<close>

theorem parse_events_json_array:
  assumes "loads (str_strip content) = Inr (JList (map JStr events))"
  shows "primary_parse loads (str_strip content) = Inr events \<and>
         parse_events loads py_print category_label content = Inr events"
  using assms by (simp add: parse_events_def primary_parse_def list_all_iff comp_def)

theorem parse_events_json_array_witness:
  "sample_loads (str_strip sample_reply)
     = Inr (JList (map JStr [lit ''Moon landing'', lit ''Fall of Rome''])) \<and>
   parse_events sample_loads utf8_stdout (lit ''Wars'') sample_reply
     = Inr [lit ''Moon landing'', lit ''Fall of Rome'']"
proof -
  have h: "sample_loads (str_strip sample_reply)
     = Inr (JList (map JStr [lit ''Moon landing'', lit ''Fall of Rome'']))"
    by (simp add: sample_loads_def sample_reply_def str_strip_def isspace_def lit_def)
  show ?thesis
    using h parse_events_json_array
      [of sample_loads sample_reply "[lit ''Moon landing'', lit ''Fall of Rome'']"
          utf8_stdout "lit ''Wars''"]
    by simp
qed

section \<open>Facts about substrings\<close>

lemma str_in_sublist: "str_in sub s = sublist sub s"
  by (induction s) (auto simp: sublist_Cons_right)

lemma sublist_rev_dropWhile_rev: "sublist (rev (dropWhile P (rev t))) t"
proof -
  have "suffix (dropWhile P (rev t)) (rev t)" by (rule suffix_dropWhile)
  then have "prefix (rev (dropWhile P (rev t))) t"
    by (simp add: suffix_to_prefix)
  then show ?thesis by (rule prefix_imp_sublist)
qed

lemma sublist_both_dropWhile: "sublist (rev (dropWhile P (rev (dropWhile Q s)))) s"
proof -
  have "sublist (rev (dropWhile P (rev (dropWhile Q s)))) (dropWhile Q s)"
    by (rule sublist_rev_dropWhile_rev)
  moreover have "sublist (dropWhile Q s) s"
    by (rule suffix_imp_sublist) (rule suffix_dropWhile)
  ultimately show ?thesis by (rule sublist_order.order_trans)
qed

lemma sublist_str_strip: "sublist (str_strip s) s"
  unfolding str_strip_def by (rule sublist_both_dropWhile)

lemma sublist_str_strip_chars: "sublist (str_strip_chars chars s) s"
  unfolding str_strip_chars_def by (rule sublist_both_dropWhile)

lemma sublist_behind: "sublist w cs \<Longrightarrow> sublist w (pre @ cs)"
proof -
  assume "sublist w cs"
  moreover have "sublist cs (pre @ cs)"
    by (rule suffix_imp_sublist) (simp add: suffix_def)
  ultimately show ?thesis by (rule sublist_order.order_trans)
qed

lemma split_from_sublist: "w \<in> set (split_from cur s) \<Longrightarrow> sublist w (cur @ s)"
proof (induction s arbitrary: cur)
  case Nil
  then show ?case by (simp split: if_splits)
next
  case (Cons c cs)
  show ?case
  proof (cases "isspace c")
    case False
    with Cons.prems have "w \<in> set (split_from (cur @ [c]) cs)" by simp
    then have "sublist w ((cur @ [c]) @ cs)" by (rule Cons.IH)
    then show ?thesis by simp
  next
    case True
    with Cons.prems have "w = cur \<or> w \<in> set (split_from [] cs)"
      by (auto split: if_splits)
    then show ?thesis
    proof
      assume "w = cur"
      then show ?thesis by (simp add: prefix_imp_sublist)
    next
      assume "w \<in> set (split_from [] cs)"
      then have "sublist w ([] @ cs)" by (rule Cons.IH)
      then have "sublist w cs" by simp
      then have "sublist w ((cur @ [c]) @ cs)" by (rule sublist_behind)
      then show ?thesis by simp
    qed
  qed
qed

lemma str_split_sublist: "w \<in> set (str_split s) \<Longrightarrow> sublist w s"
  unfolding str_split_def using split_from_sublist[of w "[]" s] by simp

text \<open>A substring that neither starts nor ends with white space survives strip.\<close>

lemma sublist_dropWhile_keeps:
  assumes "sublist xs s" and "xs \<noteq> []" and "\<not> P (hd xs)"
  shows "\<exists>ps ss. dropWhile P s = ps @ xs @ ss"
proof -
  from assms(1) obtain ps ss where s: "s = ps @ xs @ ss" by (auto simp: sublist_def)
  from assms(2) obtain x xs' where xs: "xs = x # xs'" by (cases xs) auto
  with assms(3) have nx: "\<not> P x" by simp
  show ?thesis
  proof (cases "\<forall>a\<in>set ps. P a")
    case True
    then have "dropWhile P s = xs @ ss"
      using nx by (simp add: s xs dropWhile_append2)
    then have "dropWhile P s = [] @ xs @ ss" by simp
    then show ?thesis by blast
  next
    case False
    then obtain a where "a \<in> set ps" "\<not> P a" by blast
    then have "dropWhile P s = dropWhile P ps @ xs @ ss"
      by (simp add: s dropWhile_append1)
    then show ?thesis by blast
  qed
qed

lemma sublist_strip_keeps:
  assumes "sublist xs s" and "xs \<noteq> []" and "\<not> P (hd xs)" and "\<not> P (last xs)"
  shows "sublist xs (rev (dropWhile P (rev (dropWhile P s))))"
proof -
  have "\<exists>ps ss. dropWhile P s = ps @ xs @ ss"
    using assms(1,2,3) by (rule sublist_dropWhile_keeps)
  then have 1: "sublist xs (dropWhile P s)" by (auto simp: sublist_def)
  then have "sublist (rev xs) (rev (dropWhile P s))" by (simp add: sublist_rev)
  moreover have "rev xs \<noteq> []" using assms(2) by simp
  moreover have "\<not> P (hd (rev xs))" using assms(2,4) by (simp add: hd_rev)
  ultimately have "\<exists>ps ss. dropWhile P (rev (dropWhile P s)) = ps @ rev xs @ ss"
    by (rule sublist_dropWhile_keeps)
  then have "sublist (rev xs) (dropWhile P (rev (dropWhile P s)))"
    by (auto simp: sublist_def)
  then have "sublist (rev (rev xs)) (rev (dropWhile P (rev (dropWhile P s))))"
    by (simp only: sublist_rev)
  then show ?thesis by simp
qed

lemma str_in_strip:
  assumes "xs \<noteq> []" and "\<not> isspace (hd xs)" and "\<not> isspace (last xs)"
  shows "str_in xs (str_strip s) = str_in xs s"
proof
  assume "str_in xs (str_strip s)"
  then have "sublist xs (str_strip s)" by (simp add: str_in_sublist)
  then have "sublist xs s" using sublist_str_strip by (rule sublist_order.order_trans)
  then show "str_in xs s" by (simp add: str_in_sublist)
next
  assume "str_in xs s"
  then have "sublist xs s" by (simp add: str_in_sublist)
  then have "sublist xs (str_strip s)"
    unfolding str_strip_def using assms by (rule sublist_strip_keeps)
  then show "str_in xs (str_strip s)" by (simp add: str_in_sublist)
qed

lemma label_in_strip:
  "label \<in> set EVENT_CATEGORIES \<Longrightarrow> str_in label (str_strip s) = str_in label s"
  by (rule str_in_strip) (auto simp: EVENT_CATEGORIES_def lit_def isspace_def)

lemma find_labels_strip:
  "find (\<lambda>label. str_in label (str_strip s)) EVENT_CATEGORIES
   = find (\<lambda>label. str_in label s) EVENT_CATEGORIES"
  by (rule find_cong) (simp_all add: label_in_strip)

lemma last_word_no_label:
  assumes none: "find (\<lambda>label. str_in label raw) EVENT_CATEGORIES = None"
    and words: "str_split raw \<noteq> []"
  shows "str_strip_chars chars (last (str_split raw)) \<notin> set EVENT_CATEGORIES"
proof
  let ?w = "last (str_split raw)"
  assume mem: "str_strip_chars chars ?w \<in> set EVENT_CATEGORIES"
  have "?w \<in> set (str_split raw)" using words by simp
  then have "sublist ?w raw" by (rule str_split_sublist)
  with sublist_str_strip_chars have "sublist (str_strip_chars chars ?w) raw"
    by (rule sublist_order.order_trans)
  then have "str_in (str_strip_chars chars ?w) raw" by (simp add: str_in_sublist)
  with none mem show False by (auto simp: find_None_iff)
qed

lemma cot_label_eq:
  "cot_label content =
     (case find (\<lambda>label. str_in label content) EVENT_CATEGORIES of
        Some label \<Rightarrow> label
      | None \<Rightarrow> lit ''Wars'')"
proof (cases "find (\<lambda>label. str_in label content) EVENT_CATEGORIES")
  case (Some label)
  then show ?thesis by (simp add: cot_label_def find_labels_strip)
next
  case None
  then have none: "find (\<lambda>label. str_in label (str_strip content)) EVENT_CATEGORIES = None"
    by (simp add: find_labels_strip)
  have hd: "hd EVENT_CATEGORIES = lit ''Wars''" by (simp add: EVENT_CATEGORIES_def)
  show ?thesis
  proof (cases "str_split (str_strip content) = []")
    case True
    with None none hd show ?thesis by (simp add: cot_label_def)
  next
    case False
    with none have "str_strip_chars (lit ''.,!?'') (last (str_split (str_strip content)))
        \<notin> set EVENT_CATEGORIES"
      by (rule last_word_no_label)
    with None none hd show ?thesis by (simp add: cot_label_def)
  qed
qed

section \<open>The reasoned classifier\<close>

text \<open>
  Claim C10. Whatever the reply, the label the reasoned classifier returns is one of the
  four entries of the category list; the direct classifier gives no such guarantee: there
  is a reply on which it returns a token outside the list.
\<close>

theorem cot_label_closed_vocabulary:
  "cot_label content \<in> set EVENT_CATEGORIES \<and>
   length EVENT_CATEGORIES = 4 \<and>
   (\<exists>reply token. baseline_label reply = (Inr token :: 'e error + str) \<and>
       token \<notin> set EVENT_CATEGORIES)"
proof (intro conjI)
  show "cot_label content \<in> set EVENT_CATEGORIES"
  proof (cases "find (\<lambda>label. str_in label content) EVENT_CATEGORIES")
    case None
    then show ?thesis by (simp add: cot_label_eq EVENT_CATEGORIES_def)
  next
    case (Some label)
    then have "label \<in> set EVENT_CATEGORIES"
      by (auto simp: find_Some_iff)
    with Some show ?thesis by (simp add: cot_label_eq)
  qed
  show "length EVENT_CATEGORIES = 4" by (simp add: EVENT_CATEGORIES_def)
  have "baseline_label (lit ''Sports'') = (Inr (lit ''Sports'') :: 'e error + str)"
    by (simp add: baseline_label_def str_strip_def str_split_def isspace_def lit_def)
  moreover have "lit ''Sports'' \<notin> set EVENT_CATEGORIES"
    by (simp add: EVENT_CATEGORIES_def lit_def)
  ultimately show "\<exists>reply token. baseline_label reply = (Inr token :: 'e error + str) \<and>
       token \<notin> set EVENT_CATEGORIES"
    by blast
qed

text \<open>
  Claim C7. When no category label is a substring of the reply and the last token of the
  reply, stripped of the characters \<open>.,!?\<close>, is not a label either, the reasoned classifier
  returns the first entry of the category list, \<open>Wars\<close>. (The first hypothesis already
  gives the second: a token that strips to a label contains that label.)
\<close>

theorem cot_label_default:
  assumes "\<forall>label \<in> set EVENT_CATEGORIES. \<not> str_in label content"
    and "str_split content \<noteq> [] \<longrightarrow>
           str_strip_chars (lit ''.,!?'') (last (str_split content)) \<notin> set EVENT_CATEGORIES"
  shows "cot_label content = hd EVENT_CATEGORIES \<and> cot_label content = lit ''Wars''"
proof -
  from assms(1) have "find (\<lambda>label. str_in label content) EVENT_CATEGORIES = None"
    by (simp add: find_None_iff)
  then show ?thesis by (simp add: cot_label_eq EVENT_CATEGORIES_def)
qed

theorem cot_label_default_witness:
  "list_all (\<lambda>label. \<not> str_in label (lit ''Hard to say, maybe sports?'')) EVENT_CATEGORIES \<and>
   str_strip_chars (lit ''.,!?'') (last (str_split (lit ''Hard to say, maybe sports?''))) = lit ''sports'' \<and>
   cot_label (lit ''Hard to say, maybe sports?'') = lit ''Wars''"
proof -
  have 1: "\<forall>label \<in> set EVENT_CATEGORIES. \<not> str_in label (lit ''Hard to say, maybe sports?'')"
    by (simp add: EVENT_CATEGORIES_def lit_def)
  have 2: "str_strip_chars (lit ''.,!?'') (last (str_split (lit ''Hard to say, maybe sports?''))) = lit ''sports''"
    by (simp add: str_strip_chars_def str_split_def isspace_def lit_def)
  have 3: "lit ''sports'' \<notin> set EVENT_CATEGORIES"
    by (simp add: EVENT_CATEGORIES_def lit_def)
  from 1 have 4: "list_all (\<lambda>label. \<not> str_in label (lit ''Hard to say, maybe sports?'')) EVENT_CATEGORIES"
    by (simp add: list_all_iff)
  show ?thesis
    using 1 2 3 4 cot_label_default [of "lit ''Hard to say, maybe sports?''"] by metis
qed

text \<open>
  Claim C2, as stated, fails: the labels are tried in the order of the category list, so
  a reply that contains \<open>Science\<close> and ends in \<open>Wars\<close> is classified as \<open>Wars\<close>.
\<close>

theorem cot_label_science_fails:
  "str_in (lit ''Science'') (lit ''Science Wars'') \<and>
   last (str_split (lit ''Science Wars'')) = lit ''Wars'' \<and>
   cot_label (lit ''Science Wars'') = lit ''Wars'' \<and>
   cot_label (lit ''Science Wars'') \<noteq> lit ''Science''"
  by (simp add: cot_label_def str_strip_def str_split_def isspace_def EVENT_CATEGORIES_def lit_def)

text \<open>
  Claim C2, amended. A reply that contains \<open>Science\<close> and contains neither \<open>Wars\<close> nor
  \<open>Politics\<close>, the two labels tried before it, is classified as \<open>Science\<close>, whatever its
  last token is (it may be \<open>Culture\<close>).
\<close>

theorem cot_label_science:
  assumes "str_in (lit ''Science'') content"
    and "\<not> str_in (lit ''Wars'') content"
    and "\<not> str_in (lit ''Politics'') content"
  shows "cot_label content = lit ''Science''"
  using assms by (simp add: cot_label_eq EVENT_CATEGORIES_def)

theorem cot_label_science_witness:
  "str_in (lit ''Science'') (lit ''Science, not Culture'') \<and>
   last (str_split (lit ''Science, not Culture'')) = lit ''Culture'' \<and>
   cot_label (lit ''Science, not Culture'') = lit ''Science''"
proof -
  have 1: "str_in (lit ''Science'') (lit ''Science, not Culture'')" by (simp add: lit_def)
  have 2: "\<not> str_in (lit ''Wars'') (lit ''Science, not Culture'')" by (simp add: lit_def)
  have 3: "\<not> str_in (lit ''Politics'') (lit ''Science, not Culture'')" by (simp add: lit_def)
  have 4: "last (str_split (lit ''Science, not Culture'')) = lit ''Culture''"
    by (simp add: str_split_def isspace_def lit_def)
  show ?thesis using 1 4 cot_label_science [OF 1 2 3] by simp
qed

section \<open>The direct classifier\<close>

lemma split_from_dropWhile: "split_from [] (dropWhile isspace s) = split_from [] s"
  by (induction s) simp_all

lemma split_from_spaces:
  "\<forall>c\<in>set v. isspace c \<Longrightarrow> split_from cur v = (if cur = [] then [] else [cur])"
  by (induction v arbitrary: cur) simp_all

lemma split_from_trailing:
  "\<forall>c\<in>set v. isspace c \<Longrightarrow> split_from cur (u @ v) = split_from cur u"
proof (induction u arbitrary: cur)
  case Nil
  then show ?case by (simp add: split_from_spaces)
next
  case (Cons a u)
  then show ?case by simp
qed

lemma strip_decomp:
  "\<exists>v. (\<forall>c\<in>set v. isspace c) \<and> dropWhile isspace s = str_strip s @ v"
proof -
  let ?t = "dropWhile isspace s"
  have "str_strip s @ rev (takeWhile isspace (rev ?t))
      = rev (takeWhile isspace (rev ?t) @ dropWhile isspace (rev ?t))"
    by (simp only: str_strip_def rev_append)
  also have "\<dots> = ?t" by (simp only: takeWhile_dropWhile_id rev_rev_ident)
  finally have "?t = str_strip s @ rev (takeWhile isspace (rev ?t))" by simp
  moreover have "\<forall>c\<in>set (rev (takeWhile isspace (rev ?t))). isspace c"
    by (auto dest: set_takeWhileD)
  ultimately show ?thesis by blast
qed

lemma str_split_strip: "str_split (str_strip s) = str_split s"
proof -
  obtain v where v: "\<forall>c\<in>set v. isspace c" and eq: "dropWhile isspace s = str_strip s @ v"
    using strip_decomp by blast
  have "split_from [] s = split_from [] (dropWhile isspace s)"
    by (simp add: split_from_dropWhile)
  also have "\<dots> = split_from [] (str_strip s @ v)" by (simp add: eq)
  also have "\<dots> = split_from [] (str_strip s)" using v by (rule split_from_trailing)
  finally show ?thesis by (simp add: str_split_def)
qed

lemma split_from_token:
  "cur \<noteq> [] \<Longrightarrow>
   split_from cur s =
     (cur @ takeWhile (\<lambda>c. \<not> isspace c) s) # split_from [] (dropWhile (\<lambda>c. \<not> isspace c) s)"
proof (induction s arbitrary: cur)
  case Nil
  then show ?case by simp
next
  case (Cons a s)
  show ?case
  proof (cases "isspace a")
    case True
    with Cons.prems show ?thesis by simp
  next
    case False
    have "cur @ [a] \<noteq> []" by simp
    then have "split_from (cur @ [a]) s =
      ((cur @ [a]) @ takeWhile (\<lambda>c. \<not> isspace c) s) # split_from [] (dropWhile (\<lambda>c. \<not> isspace c) s)"
      by (rule Cons.IH)
    with False show ?thesis by simp
  qed
qed

lemma split_from_first:
  assumes "s \<noteq> []" and "\<not> isspace (hd s)"
  shows "split_from [] s =
     takeWhile (\<lambda>c. \<not> isspace c) s # split_from [] (dropWhile (\<lambda>c. \<not> isspace c) s)"
proof -
  from assms obtain a t where s: "s = a # t" and a: "\<not> isspace a" by (cases s) auto
  have "split_from [a] t =
     ([a] @ takeWhile (\<lambda>c. \<not> isspace c) t) # split_from [] (dropWhile (\<lambda>c. \<not> isspace c) t)"
    by (rule split_from_token) simp
  with a show ?thesis by (simp add: s)
qed

lemma str_split_first:
  assumes "list_ex (\<lambda>c. \<not> isspace c) s"
  shows "str_split s = first_token s # str_split (dropWhile (\<lambda>c. \<not> isspace c) (dropWhile isspace s))"
proof -
  let ?t = "dropWhile isspace s"
  from assms have "?t \<noteq> []" by (auto simp: list_ex_iff dropWhile_eq_Nil_conv)
  moreover from this have "\<not> isspace (hd ?t)" by (rule hd_dropWhile)
  ultimately have "split_from [] ?t =
     takeWhile (\<lambda>c. \<not> isspace c) ?t # split_from [] (dropWhile (\<lambda>c. \<not> isspace c) ?t)"
    by (rule split_from_first)
  then show ?thesis by (simp add: str_split_def first_token_def split_from_dropWhile)
qed

text \<open>
  Claim C8, as stated, fails on a reply with no token: \<open>raw_reply.split()[0]\<close> raises
  \<open>IndexError\<close> on an empty reply and on one of white space only.
\<close>

theorem baseline_label_blank:
  "baseline_label [] = (Inl IndexError :: unit error + str) \<and>
   baseline_label (lit ''  '' @ [10]) = (Inl IndexError :: unit error + str)"
  by (simp add: baseline_label_def str_strip_def str_split_def isspace_def lit_def)

text \<open>
  Claim C8, amended. For every reply with at least one character that is not white space,
  the direct classifier returns the first white-space-delimited token of the reply as it
  is: nothing compares it with the category list, so a token outside the list is returned
  too.
\<close>

theorem baseline_label_first_token:
  assumes "list_ex (\<lambda>c. \<not> isspace c) content"
  shows "baseline_label content = Inr (first_token content)"
  using assms by (simp add: baseline_label_def str_split_strip str_split_first)

theorem baseline_label_first_token_witness:
  "list_ex (\<lambda>c. \<not> isspace c) (lit '' Battles (a war)'') \<and>
   first_token (lit '' Battles (a war)'') = lit ''Battles'' \<and>
   lit ''Battles'' \<notin> set EVENT_CATEGORIES \<and>
   baseline_label (lit '' Battles (a war)'') = (Inr (lit ''Battles'') :: unit error + str)"
proof -
  have 1: "list_ex (\<lambda>c. \<not> isspace c) (lit '' Battles (a war)'')"
    by (simp add: isspace_def lit_def)
  have 2: "first_token (lit '' Battles (a war)'') = lit ''Battles''"
    by (simp add: first_token_def isspace_def lit_def)
  have 3: "lit ''Battles'' \<notin> set EVENT_CATEGORIES"
    by (simp add: EVENT_CATEGORIES_def lit_def)
  show ?thesis
    using 1 2 3 baseline_label_first_token [OF 1, where ?'a = unit] by simp
qed

section \<open>The evaluators\<close>

lemma dspy_loop_eq:
  "dspy_loop model test_data (correct, printed) =
     (correct + hits model test_data, printed @ failures model test_data)"
proof (induction test_data arbitrary: correct printed)
  case Nil
  then show ?case by (simp add: hits_def failures_def)
next
  case (Cons example rest)
  show ?case
  proof (cases "try_example model example")
    case (Inl e)
    then show ?thesis by (simp add: Cons.IH hits_def failures_def)
  next
    case (Inr hit)
    then show ?thesis by (cases hit) (simp_all add: Cons.IH hits_def failures_def)
  qed
qed

lemma evaluate_dspy_model_eq:
  "evaluate_dspy_model model test_data =
     (if test_data = [] then Inl ZeroDivisionError
      else Inr (of_nat (hits model test_data) / of_nat (length test_data), failures model test_data))"
  by (simp add: evaluate_dspy_model_def dspy_loop_eq true_div_def)

lemma evaluate_classification_function_propagates:
  assumes "example (lit ''event'') = Some event_description"
    and "example (lit ''category'') = Some true_label"
    and "classify_fn event_description = Inl e"
  shows "evaluate_classification_function classify_fn (example # rest) = Inl e"
  using assms by (simp add: evaluate_classification_function_def getitem_def)

text \<open>
  Claim C1 holds for \<open>evaluate_dspy_model\<close> (\<open>evaluate_dspy_model_eq\<close>: the failures are
  printed and skipped and the denominator is the full count) and fails for
  \<open>evaluate_classification_function\<close>, which has no handler around the call: on three
  examples with a classifier that raises on the second, it ends with that exception and
  reports no accuracy, where the other evaluator reports 2/3.
\<close>

theorem evaluate_classification_function_aborts:
  "evaluate_classification_function flaky_classify three_examples = Inl (Raised ()) \<and>
   evaluate_dspy_model flaky_classify three_examples = Inr (2 / 3, [Raised ()])"
  by (simp add: evaluate_classification_function_def evaluate_dspy_model_def try_example_def
      getitem_def labeled_def true_div_def flaky_classify_def three_examples_def lit_def)

text \<open>
  Claim C9. On an empty example list both evaluators raise \<open>ZeroDivisionError\<close> at
  \<open>correct / total\<close>. On a list that is not empty the division succeeds: it gives the
  quotient of the counter by the length, in \<open>evaluate_classification_function\<close> whenever
  the loop comes to its end, in \<open>evaluate_dspy_model\<close> always.
\<close>

theorem evaluate_division:
  "evaluate_classification_function classify_fn [] = Inl ZeroDivisionError \<and>
   evaluate_dspy_model model [] = Inl ZeroDivisionError \<and>
   (examples \<noteq> [] \<longrightarrow>
      true_div correct (length examples) = (Inr (of_nat correct / of_nat (length examples)) :: 'e error + rat) \<and>
      evaluate_classification_function classify_fn examples =
        (case count_correct classify_fn examples 0 of
           Inl e \<Rightarrow> Inl e
         | Inr correct_predictions \<Rightarrow>
             Inr (of_nat correct_predictions / of_nat (length examples))) \<and>
      evaluate_dspy_model model examples =
        Inr (of_nat (hits model examples) / of_nat (length examples), failures model examples))"
  by (auto simp: evaluate_classification_function_def evaluate_dspy_model_eq true_div_def
      split: sum.splits)

theorem evaluate_division_witness:
  "three_examples \<noteq> [] \<and>
   evaluate_classification_function always_wars [] = Inl ZeroDivisionError \<and>
   evaluate_dspy_model flaky_classify [] = Inl ZeroDivisionError \<and>
   count_correct always_wars three_examples 0 = Inr 2 \<and>
   evaluate_classification_function always_wars three_examples = Inr (2 / 3) \<and>
   evaluate_dspy_model flaky_classify three_examples = Inr (2 / 3, [Raised ()])"
proof -
  note T = evaluate_division [of always_wars flaky_classify three_examples 2]
  have 1: "three_examples \<noteq> []" by (simp add: three_examples_def)
  have 2: "count_correct always_wars three_examples 0 = Inr 2"
    by (simp add: always_wars_def getitem_def labeled_def three_examples_def lit_def)
  have 3: "hits flaky_classify three_examples = 2"
    by (simp add: hits_def try_example_def getitem_def labeled_def flaky_classify_def
        three_examples_def lit_def)
  have 4: "failures flaky_classify three_examples = [Raised ()]"
    by (simp add: failures_def try_example_def getitem_def labeled_def flaky_classify_def
        three_examples_def lit_def)
  have 5: "length three_examples = 3" by (simp add: three_examples_def)
  from T have a: "evaluate_classification_function always_wars [] = Inl ZeroDivisionError"
    by blast
  from T have b: "evaluate_dspy_model flaky_classify [] = Inl ZeroDivisionError"
    by blast
  from T 1 have "evaluate_classification_function always_wars three_examples =
        (case count_correct always_wars three_examples 0 of
           Inl e \<Rightarrow> Inl e
         | Inr correct_predictions \<Rightarrow>
             Inr (of_nat correct_predictions / of_nat (length three_examples)))"
    by blast
  then have c: "evaluate_classification_function always_wars three_examples = Inr (2 / 3)"
    by (simp add: 2 5)
  from T 1 have "evaluate_dspy_model flaky_classify three_examples =
        Inr (of_nat (hits flaky_classify three_examples) / of_nat (length three_examples),
             failures flaky_classify three_examples)"
    by blast
  then have d: "evaluate_dspy_model flaky_classify three_examples = Inr (2 / 3, [Raised ()])"
    by (simp add: 3 4 5)
  from 1 2 a b c d show ?thesis by blast
qed

section \<open>The generator's fallback\<close>

text \<open>
  A kept line does not end in a double quote, so the removal of surrounding quotes
  (lines 89 and 90) never applies: the fallback returns the cleaned lines that pass the
  filter, in their order.
\<close>

lemma keep_line_unquote: "keep_line line \<Longrightarrow> unquote line = line"
  by (simp add: keep_line_def unquote_def str_endswith_def)

lemma keep_line_no_quote_end: "keep_line line \<Longrightarrow> line \<noteq> [] \<and> last line \<noteq> 34"
proof
  assume k: "keep_line line"
  then show ne: "line \<noteq> []" by (auto simp: keep_line_def)
  then obtain c r where r: "rev line = c # r" by (cases "rev line") auto
  then have "last line = c" using ne by (metis last_rev list.sel(1) rev_rev_ident rev_is_Nil_conv)
  moreover from k r have "c \<noteq> 34" by (auto simp: keep_line_def str_endswith_def)
  ultimately show "last line \<noteq> 34" by simp
qed

lemma fallback_lines_eq: "fallback_lines lines = filter keep_line (map clean_line lines)"
  by (induction lines) (simp_all add: Let_def keep_line_unquote)

lemma fallback_parse_eq:
  "fallback_parse raw_output = filter keep_line (map clean_line (str_splitlines raw_output))"
  by (simp add: fallback_parse_def fallback_lines_eq)

lemma fallback_parse_long:
  "list_all (\<lambda>event. length event > 10) (fallback_parse raw_output)"
  by (auto simp: fallback_parse_eq list_all_iff keep_line_def)

text \<open>The exceptions of the primary path: those of the decoder, and the two \<open>ValueError\<close>s.\<close>

lemma primary_parse_raises:
  "primary_parse loads raw_output = Inl e \<Longrightarrow> caught e = None \<Longrightarrow> loads raw_output = Inl e"
  by (auto simp: primary_parse_def split: sum.splits if_splits)

text \<open>The handler returns the fallback's result when its three prints succeed, and
  raises what the first failing print raises.\<close>

lemma except_body_prints:
  assumes "list_all (\<lambda>text. py_print text = None) (handler_texts category_label raw_output message)"
  shows "except_body py_print category_label raw_output message = Inr (fallback_parse raw_output)"
  using assms by (simp add: except_body_def handler_texts_def)

lemma except_body_raises:
  assumes "\<not> list_all (\<lambda>text. py_print text = None) (handler_texts category_label raw_output message)"
  shows "\<exists>e text. text \<in> set (handler_texts category_label raw_output message) \<and>
           py_print text = Some e \<and>
           except_body py_print category_label raw_output message = Inl e"
  using assms by (auto simp: except_body_def handler_texts_def split: option.splits)

text \<open>The sample replies, step by step.\<close>

lemma str_strip_id:
  assumes "s \<noteq> []" and "\<not> isspace (hd s)" and "\<not> isspace (last s)"
  shows "str_strip s = s"
proof -
  from assms(1,2) have 1: "dropWhile isspace s = s" by (cases s) simp_all
  from assms(1,3) have "\<not> isspace (hd (rev s))" by (simp add: hd_rev)
  moreover from assms(1) have "rev s \<noteq> []" by simp
  ultimately have "dropWhile isspace (rev s) = rev s" by (cases "rev s") simp_all
  with 1 show ?thesis by (simp add: str_strip_def)
qed

lemma bullet_reply_strip: "str_strip bullet_reply = bullet_reply"
  by (simp add: str_strip_def isspace_def bullet_reply_def lit_def)

lemma bullet_reply_loads:
  "sample_loads bullet_reply = Inl (JSONDecodeError (lit ''Expecting value: line 1 column 1 (char 0)''))"
  by (simp add: sample_loads_def bullet_reply_def lit_def)

lemma bullet_reply_fallback: "fallback_parse bullet_reply = [lit ''The Moon landing in 1969'']"
  by (simp add: fallback_parse_def str_splitlines_def islinebreak_def clean_line_def
      str_strip_def str_lstrip_chars_def bullet_chars_def isspace_def keep_line_def
      str_startswith_def str_endswith_def unquote_def bullet_reply_def lit_def)

lemma str_of_nat_digit: "n < 10 \<Longrightarrow> str_of_nat n = [48 + n]"
  by (simp add: str_of_nat.simps)

lemma bullet_reply_prints:
  assumes "\<not> list_ex is_surrogate label"
  shows "list_all (\<lambda>printed. utf8_stdout printed = None)
     (handler_texts label bullet_reply (lit ''Expecting value: line 1 column 1 (char 0)''))"
proof -
  have 1: "utf8_stdout (lit ''Raw output: '' @ bullet_reply) = None"
    by (simp add: utf8_stdout_def is_surrogate_def bullet_reply_def lit_def)
  have 2: "utf8_stdout (lit ''Failed to parse JSON for category '' @ label @ lit '': '' @
             lit ''Expecting value: line 1 column 1 (char 0)'') = None"
    using assms by (simp add: utf8_stdout_def is_surrogate_def lit_def)
  have 3: "utf8_stdout (lit ''Fallback parsing extracted '' @ str_of_nat (Suc 0) @ lit '' events'') = None"
    by (simp add: utf8_stdout_def is_surrogate_def str_of_nat_digit lit_def)
  show ?thesis
    by (simp add: handler_texts_def bullet_reply_fallback 1 2 3)
qed

lemma utf8_stdout_raises:
  "utf8_stdout printed = Some e \<Longrightarrow> e = UnicodeEncodeError (surrogate_message printed)"
  by (simp add: utf8_stdout_def split: if_splits)

lemma deep_reply_strip: "str_strip deep_reply = deep_reply"
  by (rule str_strip_id) (simp_all add: deep_reply_def isspace_def)

lemma deep_reply_loads: "sample_loads deep_reply = Inl RecursionError"
  by (simp add: sample_loads_def deep_reply_def list_all_iff)

lemma surrogate_reply_strip: "str_strip surrogate_reply = surrogate_reply"
  by (simp add: str_strip_def isspace_def surrogate_reply_def lit_def)

lemma surrogate_reply_loads:
  "sample_loads surrogate_reply = Inl (JSONDecodeError (lit ''Expecting value: line 1 column 1 (char 0)''))"
  by (simp add: sample_loads_def surrogate_reply_def lit_def)

lemma surrogate_reply_prints:
  "utf8_stdout (lit ''Failed to parse JSON for category Wars: Expecting value: line 1 column 1 (char 0)'') = None \<and>
   utf8_stdout (lit ''Raw output: '' @ surrogate_reply)
     = Some (UnicodeEncodeError surrogate_reply_message)"
  by (simp add: utf8_stdout_def surrogate_message_def is_surrogate_def hex_digit_def
      str_of_nat.simps surrogate_reply_message_def surrogate_reply_def lit_def)


lemma bullet_reply_parse:
  assumes "\<not> list_ex is_surrogate label"
  shows "parse_events sample_loads utf8_stdout label bullet_reply
     = Inr [lit ''The Moon landing in 1969'']"
  using except_body_prints [OF bullet_reply_prints [OF assms]]
  by (simp add: parse_events_def primary_parse_def bullet_reply_strip bullet_reply_loads
      bullet_reply_fallback)

lemma surrogate_reply_parse:
  "parse_events sample_loads utf8_stdout (lit ''Wars'') surrogate_reply
     = Inl (UnicodeEncodeError surrogate_reply_message)"
  using surrogate_reply_prints
  by (simp add: parse_events_def primary_parse_def surrogate_reply_strip surrogate_reply_loads
      except_body_def lit_def)

lemma label_encodable:
  "label \<in> set EVENT_CATEGORIES \<Longrightarrow> \<not> list_ex is_surrogate label"
  by (auto simp: EVENT_CATEGORIES_def is_surrogate_def lit_def)

lemma wars_encodable: "\<not> list_ex is_surrogate (lit ''Wars'')"
  by (simp add: is_surrogate_def lit_def)

text \<open>
  Claim C3. The order, the stripping of bullets and the filter are as the claim says
  (\<open>fallback_parse_eq\<close>). Its last part fails: a line that begins and ends with a double
  quote is never kept, since the filter discards every line that ends in a quote before
  the quotes could be removed. On the reply below the quoted line is dropped and only the
  other line is returned.
\<close>

theorem fallback_drops_quoted_line:
  "str_splitlines bullet_reply =
     [lit ''- '' @ 34 # lit ''The Battle of Hastings in 1066'' @ [34],
      lit ''- The Moon landing in 1969''] \<and>
   clean_line (lit ''- '' @ 34 # lit ''The Battle of Hastings in 1066'' @ [34])
     = 34 # lit ''The Battle of Hastings in 1066'' @ [34] \<and>
   \<not> keep_line (34 # lit ''The Battle of Hastings in 1066'' @ [34]) \<and>
   fallback_parse bullet_reply = [lit ''The Moon landing in 1969''] \<and>
   parse_events sample_loads utf8_stdout (lit ''Wars'') bullet_reply
     = Inr [lit ''The Moon landing in 1969'']"
proof (intro conjI)
  show "str_splitlines bullet_reply =
     [lit ''- '' @ 34 # lit ''The Battle of Hastings in 1066'' @ [34],
      lit ''- The Moon landing in 1969'']"
    by (simp add: str_splitlines_def islinebreak_def bullet_reply_def lit_def)
  show "clean_line (lit ''- '' @ 34 # lit ''The Battle of Hastings in 1066'' @ [34])
     = 34 # lit ''The Battle of Hastings in 1066'' @ [34]"
    by (simp add: clean_line_def str_strip_def str_lstrip_chars_def bullet_chars_def
        isspace_def lit_def)
  show "\<not> keep_line (34 # lit ''The Battle of Hastings in 1066'' @ [34])"
    by (simp add: keep_line_def str_startswith_def str_endswith_def lit_def)
  show "fallback_parse bullet_reply = [lit ''The Moon landing in 1969'']"
    by (rule bullet_reply_fallback)
  show "parse_events sample_loads utf8_stdout (lit ''Wars'') bullet_reply
     = Inr [lit ''The Moon landing in 1969'']"
    by (rule bullet_reply_parse) (rule wars_encodable)
qed

text \<open>
  Claim C6, as stated, fails in three ways. The reply \<open>[""]\<close> is a JSON array of strings
  and is returned as it is, with its empty string. On a reply of a thousand opening
  brackets \<open>json.loads\<close> raises \<open>RecursionError\<close>, which the handler does not take. On a
  reply with a lone surrogate the handler's \<open>print\<close> of the raw output raises
  \<open>UnicodeEncodeError\<close> on a standard output in UTF-8.
\<close>

theorem parse_events_claim_fails:
  "parse_events sample_loads utf8_stdout (lit ''Wars'') (91 # 34 # 34 # [93]) = Inr [[]] \<and>
   \<not> list_all (\<lambda>event. event \<noteq> []) [[] :: str] \<and>
   parse_events sample_loads utf8_stdout (lit ''Wars'') deep_reply = Inl RecursionError \<and>
   parse_events sample_loads utf8_stdout (lit ''Wars'') surrogate_reply
     = Inl (UnicodeEncodeError surrogate_reply_message)"
proof (intro conjI)
  show "parse_events sample_loads utf8_stdout (lit ''Wars'') (91 # 34 # 34 # [93]) = Inr [[]]"
    by (simp add: parse_events_def primary_parse_def sample_loads_def str_strip_def isspace_def)
  show "\<not> list_all (\<lambda>event. event \<noteq> []) [[] :: str]" by simp
  show "parse_events sample_loads utf8_stdout (lit ''Wars'') deep_reply = Inl RecursionError"
    by (simp add: parse_events_def primary_parse_def deep_reply_strip deep_reply_loads)
  show "parse_events sample_loads utf8_stdout (lit ''Wars'') surrogate_reply
     = Inl (UnicodeEncodeError surrogate_reply_message)"
    by (rule surrogate_reply_parse)
qed

text \<open>
  Claim C6, amended. For every reply: when the primary path succeeds, the result is the
  decoded list as it is, whose strings may be empty; when it raises \<open>JSONDecodeError\<close> or
  \<open>ValueError\<close> and the three prints of the handler succeed, the result is that of the
  fallback, and each of its strings has more than 10 characters; when one of these prints
  raises, its exception leaves the generator; and an exception of \<open>json.loads\<close> that the
  handler does not take leaves the generator as well.
\<close>

theorem parse_events_result:
  "(primary_parse loads (str_strip content) = Inr decoded \<longrightarrow>
      parse_events loads py_print category_label content = Inr decoded) \<and>
   (primary_parse loads (str_strip content) = Inl e \<longrightarrow> caught e = Some message \<longrightarrow>
      list_all (\<lambda>text. py_print text = None)
        (handler_texts category_label (str_strip content) message) \<longrightarrow>
      parse_events loads py_print category_label content = Inr (fallback_parse (str_strip content)) \<and>
      list_all (\<lambda>event. length event > 10) (fallback_parse (str_strip content))) \<and>
   (primary_parse loads (str_strip content) = Inl e \<longrightarrow> caught e = Some message \<longrightarrow>
      \<not> list_all (\<lambda>text. py_print text = None)
        (handler_texts category_label (str_strip content) message) \<longrightarrow>
      (\<exists>e' text. text \<in> set (handler_texts category_label (str_strip content) message) \<and>
         py_print text = Some e' \<and>
         parse_events loads py_print category_label content = Inl e')) \<and>
   (primary_parse loads (str_strip content) = Inl e \<longrightarrow> caught e = None \<longrightarrow>
      loads (str_strip content) = Inl e \<and>
      parse_events loads py_print category_label content = Inl e)"
proof (intro conjI impI)
  assume "primary_parse loads (str_strip content) = Inr decoded"
  then show "parse_events loads py_print category_label content = Inr decoded"
    by (simp add: parse_events_def)
next
  assume p: "primary_parse loads (str_strip content) = Inl e" and c: "caught e = Some message"
    and ok: "list_all (\<lambda>text. py_print text = None)
        (handler_texts category_label (str_strip content) message)"
  from ok have "except_body py_print category_label (str_strip content) message
      = Inr (fallback_parse (str_strip content))"
    by (rule except_body_prints)
  with p c show "parse_events loads py_print category_label content
      = Inr (fallback_parse (str_strip content))"
    by (simp add: parse_events_def)
  show "list_all (\<lambda>event. length event > 10) (fallback_parse (str_strip content))"
    by (rule fallback_parse_long)
next
  assume p: "primary_parse loads (str_strip content) = Inl e" and c: "caught e = Some message"
    and bad: "\<not> list_all (\<lambda>text. py_print text = None)
        (handler_texts category_label (str_strip content) message)"
  from bad obtain e' printed where
    "printed \<in> set (handler_texts category_label (str_strip content) message)"
    "py_print printed = Some e'"
    "except_body py_print category_label (str_strip content) message = Inl e'"
    using except_body_raises by blast
  with p c show "\<exists>e' text. text \<in> set (handler_texts category_label (str_strip content) message) \<and>
         py_print text = Some e' \<and> parse_events loads py_print category_label content = Inl e'"
    by (auto simp: parse_events_def)
next
  assume p: "primary_parse loads (str_strip content) = Inl e" and c: "caught e = None"
  then show "loads (str_strip content) = Inl e" by (rule primary_parse_raises)
  from p c show "parse_events loads py_print category_label content = Inl e"
    by (simp add: parse_events_def)
qed


theorem parse_events_result_witness:
  "primary_parse sample_loads (str_strip sample_reply)
     = Inr [lit ''Moon landing'', lit ''Fall of Rome''] \<and>
   parse_events sample_loads utf8_stdout (lit ''Wars'') sample_reply
     = Inr [lit ''Moon landing'', lit ''Fall of Rome''] \<and>
   primary_parse sample_loads (str_strip bullet_reply)
     = Inl (JSONDecodeError (lit ''Expecting value: line 1 column 1 (char 0)'')) \<and>
   parse_events sample_loads utf8_stdout (lit ''Wars'') bullet_reply
     = Inr [lit ''The Moon landing in 1969''] \<and>
   list_all (\<lambda>event. length event > 10) [lit ''The Moon landing in 1969''] \<and>
   parse_events sample_loads utf8_stdout (lit ''Wars'') surrogate_reply
     = Inl (UnicodeEncodeError surrogate_reply_message) \<and>
   parse_events sample_loads utf8_stdout (lit ''Wars'') deep_reply = Inl RecursionError"
proof -
  let ?msg = "lit ''Expecting value: line 1 column 1 (char 0)''"
  note A = parse_events_result
    [where loads = sample_loads and py_print = utf8_stdout and category_label = "lit ''Wars''"
       and content = sample_reply and decoded = "[lit ''Moon landing'', lit ''Fall of Rome'']"]
  note B = parse_events_result
    [where loads = sample_loads and py_print = utf8_stdout and category_label = "lit ''Wars''"
       and content = bullet_reply and e = "JSONDecodeError ?msg" and message = ?msg]
  note C = parse_events_result
    [where loads = sample_loads and py_print = utf8_stdout and category_label = "lit ''Wars''"
       and content = surrogate_reply and e = "JSONDecodeError ?msg" and message = ?msg]
  note D = parse_events_result
    [where loads = sample_loads and py_print = utf8_stdout and category_label = "lit ''Wars''"
       and content = deep_reply and e = RecursionError]
  have a1: "primary_parse sample_loads (str_strip sample_reply)
      = Inr [lit ''Moon landing'', lit ''Fall of Rome'']"
    by (simp add: primary_parse_def sample_loads_def sample_reply_def str_strip_def
        isspace_def lit_def)
  from A a1 have a2: "parse_events sample_loads utf8_stdout (lit ''Wars'') sample_reply
      = Inr [lit ''Moon landing'', lit ''Fall of Rome'']"
    by blast
  have b1: "primary_parse sample_loads (str_strip bullet_reply) = Inl (JSONDecodeError ?msg)"
    by (simp add: primary_parse_def bullet_reply_strip bullet_reply_loads)
  have b2: "caught (JSONDecodeError ?msg :: unit error) = Some ?msg" by simp
  have b3: "list_all (\<lambda>printed. utf8_stdout printed = None)
      (handler_texts (lit ''Wars'') (str_strip bullet_reply) ?msg)"
    using bullet_reply_prints [OF wars_encodable] by (simp add: bullet_reply_strip)
  from B b1 b2 b3 have
    "parse_events sample_loads utf8_stdout (lit ''Wars'') bullet_reply
       = Inr (fallback_parse (str_strip bullet_reply)) \<and>
     list_all (\<lambda>event. length event > 10) (fallback_parse (str_strip bullet_reply))"
    by blast
  then have b4: "parse_events sample_loads utf8_stdout (lit ''Wars'') bullet_reply
       = Inr [lit ''The Moon landing in 1969''] \<and>
     list_all (\<lambda>event. length event > 10) [lit ''The Moon landing in 1969'']"
    by (simp add: bullet_reply_strip bullet_reply_fallback)
  have c1: "primary_parse sample_loads (str_strip surrogate_reply) = Inl (JSONDecodeError ?msg)"
    by (simp add: primary_parse_def surrogate_reply_strip surrogate_reply_loads)
  have c3: "\<not> list_all (\<lambda>printed. utf8_stdout printed = None)
      (handler_texts (lit ''Wars'') (str_strip surrogate_reply) ?msg)"
    using surrogate_reply_prints by (simp add: handler_texts_def surrogate_reply_strip)
  from C c1 b2 c3 obtain e' printed where
    "printed \<in> set (handler_texts (lit ''Wars'') (str_strip surrogate_reply) ?msg)"
    "utf8_stdout printed = Some e'"
    "parse_events sample_loads utf8_stdout (lit ''Wars'') surrogate_reply = Inl e'"
    by blast
  moreover have "parse_events sample_loads utf8_stdout (lit ''Wars'') surrogate_reply
      = Inl (UnicodeEncodeError surrogate_reply_message)"
    by (rule surrogate_reply_parse)
  ultimately have c4: "parse_events sample_loads utf8_stdout (lit ''Wars'') surrogate_reply
      = Inl (UnicodeEncodeError surrogate_reply_message)"
    by simp
  have d1: "primary_parse sample_loads (str_strip deep_reply) = Inl RecursionError"
    by (simp add: primary_parse_def deep_reply_strip deep_reply_loads)
  have d2: "caught (RecursionError :: unit error) = None" by simp
  from D d1 d2 have d3: "parse_events sample_loads utf8_stdout (lit ''Wars'') deep_reply
      = Inl RecursionError"
    by blast
  from a1 a2 b1 b4 c4 d3 show ?thesis by blast
qed

section \<open>Materialisation of the dataset\<close>

lemma load_or_create_existing:
  "dataset_file w = Some data \<Longrightarrow> load_or_create completion loads py_print w = Inr (data, w)"
  by (simp add: load_or_create_def materialize_def load_examples_def)

lemma generate_trainset_existing:
  "dataset_file w = Some data \<Longrightarrow> generate_trainset generator w = Inr (data, w)"
  by (simp add: generate_trainset_def)

lemma load_or_create_stores:
  assumes "load_or_create completion loads py_print w = Inr (data, w')"
  shows "dataset_file w' = Some data"
proof (cases "dataset_file w")
  case (Some stored)
  with assms show ?thesis by (simp add: load_or_create_existing)
next
  case None
  with assms show ?thesis
    by (auto simp: load_or_create_def materialize_def load_examples_def
        split: sum.splits prod.splits)
qed

lemma generate_trainset_stores:
  assumes "generate_trainset generator w = Inr (data, w')"
  shows "dataset_file w' = Some data"
  using assms by (auto simp: generate_trainset_def split: option.splits sum.splits prod.splits)

lemma generate_all_calls:
  "generate_all completion loads py_print labels training_examples w = Inr (result, w') \<Longrightarrow>
   generator_calls w' = generator_calls w + length labels \<and> dataset_file w' = dataset_file w"
proof (induction labels arbitrary: training_examples w)
  case Nil
  then show ?case by simp
next
  case (Cons label rest)
  then show ?case by (fastforce split: sum.splits)
qed

lemma generate_n_calls:
  "generate_n generator cat n trainset w = Inr (result, w') \<Longrightarrow>
   generator_calls w' = generator_calls w + n \<and> dataset_file w' = dataset_file w"
proof (induction n arbitrary: trainset w)
  case 0
  then show ?case by simp
next
  case (Suc n)
  then show ?case by (fastforce split: sum.splits)
qed

lemma generate_cats_calls:
  "generate_cats generator cats trainset w = Inr (result, w') \<Longrightarrow>
   generator_calls w' = generator_calls w + 15 * length cats \<and> dataset_file w' = dataset_file w"
proof (induction cats arbitrary: trainset w)
  case Nil
  then show ?case by simp
next
  case (Cons cat rest)
  from Cons.prems obtain t1 w1 where
    1: "generate_n generator cat 15 trainset w = Inr (t1, w1)" and
    2: "generate_cats generator rest t1 w1 = Inr (result, w')"
    by (auto split: sum.splits)
  from 1 have "generator_calls w1 = generator_calls w + 15 \<and> dataset_file w1 = dataset_file w"
    by (rule generate_n_calls)
  moreover from 2 have
    "generator_calls w' = generator_calls w1 + 15 * length rest \<and> dataset_file w' = dataset_file w1"
    by (rule Cons.IH)
  ultimately show ?case by simp
qed

lemma load_or_create_fresh:
  assumes "dataset_file w = None" and "load_or_create completion loads py_print w = Inr (data, w')"
  shows "generator_calls w' = generator_calls w + 4"
proof -
  from assms obtain w1 where
    "generate_all completion loads py_print EVENT_CATEGORIES [] w = Inr (data, w1)"
    "w' = w1\<lparr>dataset_file := Some data\<rparr>"
    by (auto simp: load_or_create_def materialize_def load_examples_def
        split: sum.splits prod.splits)
  then show ?thesis using generate_all_calls [of completion loads py_print EVENT_CATEGORIES "[]" w data w1]
    by (simp add: EVENT_CATEGORIES_def)
qed

lemma generate_trainset_fresh:
  assumes "dataset_file w = None" and "generate_trainset generator w = Inr (data, w')"
  shows "generator_calls w' = generator_calls w + 60"
proof -
  let ?cats = "[lit ''Wars'', lit ''Politics'', lit ''Science'', lit ''Culture'']"
  from assms obtain w1 where
    run: "generate_cats generator ?cats [] w = Inr (data, w1)" and
    w': "w' = w1\<lparr>dataset_file := Some data\<rparr>"
    by (auto simp: generate_trainset_def split: sum.splits prod.splits)
  from run have "generator_calls w1 = generator_calls w + 15 * length ?cats \<and>
      dataset_file w1 = dataset_file w"
    by (rule generate_cats_calls)
  with w' show ?thesis by simp
qed

text \<open>
  Claim C4. When the dataset file exists, loading returns its content and leaves the
  world as it was: no request goes to a generator, and a second load is the same load
  again, in both scripts. After any successful run the file holds what the run returned,
  so running again returns the same content with no further request. A run that did make
  requests started without the file.
\<close>

theorem materialization_idempotent:
  "(dataset_file w = Some data \<longrightarrow>
      load_or_create completion loads py_print w = Inr (data, w) \<and>
      generate_trainset generator w = Inr (data, w)) \<and>
   (load_or_create completion loads py_print w = Inr (data, w') \<longrightarrow>
      load_or_create completion loads py_print w' = Inr (data, w') \<and>
      (generator_calls w' \<noteq> generator_calls w \<longrightarrow> dataset_file w = None)) \<and>
   (generate_trainset generator w = Inr (data, w') \<longrightarrow>
      generate_trainset generator w' = Inr (data, w') \<and>
      (generator_calls w' \<noteq> generator_calls w \<longrightarrow> dataset_file w = None))"
proof (intro conjI impI)
  assume "dataset_file w = Some data"
  then show "load_or_create completion loads py_print w = Inr (data, w)"
    and "generate_trainset generator w = Inr (data, w)"
    by (rule load_or_create_existing, rule generate_trainset_existing)
next
  assume run: "load_or_create completion loads py_print w = Inr (data, w')"
  then have "dataset_file w' = Some data" by (rule load_or_create_stores)
  then show "load_or_create completion loads py_print w' = Inr (data, w')"
    by (rule load_or_create_existing)
  assume calls: "generator_calls w' \<noteq> generator_calls w"
  show "dataset_file w = None"
  proof (rule ccontr)
    assume "dataset_file w \<noteq> None"
    then obtain stored where "dataset_file w = Some stored" by auto
    then have "load_or_create completion loads py_print w = Inr (stored, w)"
      by (rule load_or_create_existing)
    with run calls show False by simp
  qed
next
  assume run: "generate_trainset generator w = Inr (data, w')"
  then have "dataset_file w' = Some data" by (rule generate_trainset_stores)
  then show "generate_trainset generator w' = Inr (data, w')"
    by (rule generate_trainset_existing)
  assume calls: "generator_calls w' \<noteq> generator_calls w"
  show "dataset_file w = None"
  proof (rule ccontr)
    assume "dataset_file w \<noteq> None"
    then obtain stored where "dataset_file w = Some stored" by auto
    then have "generate_trainset generator w = Inr (stored, w)"
      by (rule generate_trainset_existing)
    with run calls show False by simp
  qed
qed

text \<open>A run from the state without a file: four requests, one per category.\<close>

lemma sample_generate:
  "label \<in> set EVENT_CATEGORIES \<Longrightarrow>
   generate_events_for_category (sample_completion call) sample_loads utf8_stdout label n
     = Inr [lit ''The Moon landing in 1969'']"
  by (simp add: generate_events_for_category_def sample_completion_def bullet_reply_parse
      label_encodable)

lemma fresh_run:
  "load_or_create sample_completion sample_loads utf8_stdout fresh_world
     = Inr (moon_examples, created_world)"
proof -
  have "generate_all sample_completion sample_loads utf8_stdout EVENT_CATEGORIES [] fresh_world
      = Inr (moon_examples, \<lparr>dataset_file = None, generator_calls = 4\<rparr>)"
    using sample_generate
    by (simp add: EVENT_CATEGORIES_def fresh_world_def tag_events_def moon_examples_def)
  then show ?thesis
    by (simp add: load_or_create_def materialize_def load_examples_def fresh_world_def
        created_world_def)
qed

theorem materialization_idempotent_witness:
  "dataset_file stored_world = Some three_examples \<and>
   load_or_create sample_completion sample_loads utf8_stdout stored_world = Inr (three_examples, stored_world) \<and>
   generate_trainset sample_generator stored_world = Inr (three_examples, stored_world) \<and>
   dataset_file fresh_world = None \<and>
   load_or_create sample_completion sample_loads utf8_stdout fresh_world = Inr (moon_examples, created_world) \<and>
   generator_calls created_world = 4 \<and>
   load_or_create sample_completion sample_loads utf8_stdout created_world = Inr (moon_examples, created_world)"
proof -
  note S = materialization_idempotent
    [where w = stored_world and data = three_examples and w' = stored_world
       and completion = sample_completion and loads = sample_loads
       and py_print = utf8_stdout
       and generator = sample_generator]
  note F = materialization_idempotent
    [where w = fresh_world and data = moon_examples and w' = created_world
       and completion = sample_completion and loads = sample_loads
       and py_print = utf8_stdout
       and generator = sample_generator]
  have 1: "dataset_file stored_world = Some three_examples" by (simp add: stored_world_def)
  from S 1 have 2:
    "load_or_create sample_completion sample_loads utf8_stdout stored_world = Inr (three_examples, stored_world)"
    by blast
  from S 1 have 3:
    "generate_trainset sample_generator stored_world = Inr (three_examples, stored_world)"
    by blast
  have 4: "load_or_create sample_completion sample_loads utf8_stdout fresh_world
      = Inr (moon_examples, created_world)"
    by (rule fresh_run)
  have 5: "generator_calls created_world = 4" by (simp add: created_world_def)
  have 6: "generator_calls created_world \<noteq> generator_calls fresh_world"
    by (simp add: created_world_def fresh_world_def)
  from F 4 have 7:
    "load_or_create sample_completion sample_loads utf8_stdout created_world = Inr (moon_examples, created_world)"
    by blast
  from F 4 6 have 8: "dataset_file fresh_world = None" by blast
  from 1 2 3 4 5 7 8 show ?thesis by blast
qed

end
